theory Spec2Isabelle
  imports Main "HOL-Library.Word"
begin

unbundle bit_operations_syntax

section \<open>Strings, numbers and paths as the Python code uses them\<close>

text \<open>
  Python \<open>str\<close> values are modelled as \<open>string\<close>; characters outside ASCII appear as
  their UTF-8 bytes. \<open>bytes\<close> values are lists of 8-bit words.
\<close>

type_synonym byte = "8 word"
type_synonym w32 = "32 word"

text \<open>\<open>str.lower()\<close>, on the ASCII letters.\<close>

definition ascii_lowercase :: string where
  "ascii_lowercase = ''abcdefghijklmnopqrstuvwxyz''"

definition lower_char :: "char \<Rightarrow> char" where
  "lower_char c =
     (let n = (of_char c :: nat) in
      if 65 \<le> n \<and> n \<le> 90 then ascii_lowercase ! (n - 65) else c)"

definition lower :: "string \<Rightarrow> string" where
  "lower s = map lower_char s"

text \<open>\<open>s.startswith(p)\<close>.\<close>

definition startswith :: "string \<Rightarrow> string \<Rightarrow> bool" where
  "startswith s p \<longleftrightarrow> take (length p) s = p"

text \<open>\<open>s.rfind(c)\<close>: the index of the last occurrence, \<open>None\<close> for Python's \<open>-1\<close>.\<close>

fun rfind :: "char \<Rightarrow> string \<Rightarrow> nat option" where
  "rfind c [] = None"
| "rfind c (x # xs) =
     (case rfind c xs of
        Some i \<Rightarrow> Some (Suc i)
      | None \<Rightarrow> if x = c then Some 0 else None)"

text \<open>
  \<open>Path(name).suffix\<close> for a single path component, as in \<open>pathlib\<close>:
  \<^verbatim>\<open>i = name.rfind('.'); if 0 < i < len(name) - 1: return name[i:] else: return ''\<close>
\<close>

definition suffix :: "string \<Rightarrow> string" where
  "suffix name =
     (case rfind (CHR ''.'') name of
        None \<Rightarrow> []
      | Some i \<Rightarrow> if 0 < i \<and> i + 1 < length name then drop i name else [])"

text \<open>\<open>Path(root) / filename\<close>, rendered with \<open>str\<close> on a POSIX system.\<close>

definition path_join :: "string \<Rightarrow> string \<Rightarrow> string" where
  "path_join root name = root @ ''/'' @ name"

text \<open>\<open>str(n)\<close> for a non-negative integer, and the format \<open>{n:05d}\<close>.\<close>

definition digit_char :: "nat \<Rightarrow> char" where
  "digit_char d = ''0123456789'' ! d"

fun str_nat :: "nat \<Rightarrow> string" where
  "str_nat n = (if n < 10 then [digit_char n] else str_nat (n div 10) @ [digit_char (n mod 10)])"

declare str_nat.simps [simp del]

definition fmt_05d :: "nat \<Rightarrow> string" where
  "fmt_05d n = replicate (5 - length (str_nat n)) (CHR ''0'') @ str_nat n"

section \<open>File type classification\<close>

definition IMAGE_EXTENSIONS :: "string list" where
  "IMAGE_EXTENSIONS = [''.jpg'', ''.jpeg'', ''.png'', ''.tif'', ''.tiff'', ''.bmp'', ''.gif'',
                       ''.cr2'', ''.nef'', ''.arw'', ''.dng'']"

definition AUDIO_EXTENSIONS :: "string list" where
  "AUDIO_EXTENSIONS = [''.wav'', ''.mp3'', ''.flac'', ''.m4a'', ''.aac'', ''.wma'', ''.ogg'']"

definition classify_file :: "string \<Rightarrow> string" where
  "classify_file filename =
     (let ext = lower (suffix filename) in
      if ext \<in> set IMAGE_EXTENSIONS then ''image''
      else if ext \<in> set AUDIO_EXTENSIONS then ''audio''
      else ''other'')"

section \<open>SHA-256 and the hash object of \<open>hashlib\<close>\<close>

text \<open>
  \<open>compute_file_hash\<close> feeds a \<open>hashlib.sha256()\<close> object block by block. The object is
  modelled the way streaming implementations are written: a chaining value, a buffer of
  bytes that do not yet fill a 64-byte block, and the number of bytes absorbed. The
  function \<open>sha256\<close> further down is the one-shot definition of FIPS 180-4 (pad the whole
  message, then fold the compression function over its blocks).
\<close>

definition ch :: "w32 \<Rightarrow> w32 \<Rightarrow> w32 \<Rightarrow> w32" where
  "ch x y z = (x AND y) XOR (NOT x AND z)"

definition maj :: "w32 \<Rightarrow> w32 \<Rightarrow> w32 \<Rightarrow> w32" where
  "maj x y z = (x AND y) XOR (x AND z) XOR (y AND z)"

definition bsig0 :: "w32 \<Rightarrow> w32" where
  "bsig0 x = word_rotr 2 x XOR word_rotr 13 x XOR word_rotr 22 x"

definition bsig1 :: "w32 \<Rightarrow> w32" where
  "bsig1 x = word_rotr 6 x XOR word_rotr 11 x XOR word_rotr 25 x"

definition ssig0 :: "w32 \<Rightarrow> w32" where
  "ssig0 x = word_rotr 7 x XOR word_rotr 18 x XOR drop_bit 3 x"

definition ssig1 :: "w32 \<Rightarrow> w32" where
  "ssig1 x = word_rotr 17 x XOR word_rotr 19 x XOR drop_bit 10 x"

text \<open>
  The round constants (the first 32 bits of the fractional parts of the cube roots of the
  first 64 primes) and the initial chaining value (of the square roots of the first 8
  primes), written in decimal.
\<close>

definition sha_k :: "w32 list" where
  "sha_k = [
  1116352408, 1899447441, 3049323471, 3921009573, 961987163, 1508970993, 2453635748, 2870763221,
  3624381080, 310598401, 607225278, 1426881987, 1925078388, 2162078206, 2614888103, 3248222580,
  3835390401, 4022224774, 264347078, 604807628, 770255983, 1249150122, 1555081692, 1996064986,
  2554220882, 2821834349, 2952996808, 3210313671, 3336571891, 3584528711, 113926993, 338241895,
  666307205, 773529912, 1294757372, 1396182291, 1695183700, 1986661051, 2177026350, 2456956037,
  2730485921, 2820302411, 3259730800, 3345764771, 3516065817, 3600352804, 4094571909, 275423344,
  430227734, 506948616, 659060556, 883997877, 958139571, 1322822218, 1537002063, 1747873779,
  1955562222, 2024104815, 2227730452, 2361852424, 2428436474, 2756734187, 3204031479, 3329325298]"

definition sha_h0 :: "w32 list" where
  "sha_h0 = [1779033703, 3144134277, 1013904242, 2773480762,
             1359893119, 2600822924, 528734635, 1541459225]"

fun be_words :: "byte list \<Rightarrow> w32 list" where
  "be_words (a # b # c # d # rest) =
     (push_bit 24 (ucast a) OR push_bit 16 (ucast b) OR push_bit 8 (ucast c) OR ucast d)
       # be_words rest"
| "be_words _ = []"

fun schedule :: "nat \<Rightarrow> w32 list \<Rightarrow> w32 list" where
  "schedule 0 w = w"
| "schedule (Suc n) w =
     schedule n (w @ [ssig1 (w ! (length w - 2)) + w ! (length w - 7)
                      + ssig0 (w ! (length w - 15)) + w ! (length w - 16)])"

fun rounds :: "(w32 \<times> w32) list \<Rightarrow> w32 list \<Rightarrow> w32 list" where
  "rounds [] v = v"
| "rounds ((k, w) # kws) [a, b, c, d, e, f, g, h] =
     (let t1 = h + bsig1 e + ch e f g + k + w;
          t2 = bsig0 a + maj a b c
      in rounds kws [t1 + t2, a, b, c, d + t1, e, f, g])"
| "rounds _ v = v"

definition compress :: "w32 list \<Rightarrow> byte list \<Rightarrow> w32 list" where
  "compress hv block = map2 (+) hv (rounds (zip sha_k (schedule 48 (be_words block))) hv)"

definition be_bytes :: "w32 \<Rightarrow> byte list" where
  "be_bytes w = [ucast (drop_bit 24 w), ucast (drop_bit 16 w), ucast (drop_bit 8 w), ucast w]"

text \<open>The length of the message in bits, as a 64-bit big-endian number.\<close>

definition len_bytes :: "nat \<Rightarrow> byte list" where
  "len_bytes n =
     (let w = (word_of_nat n :: 64 word) in map (\<lambda>i. ucast (drop_bit (8 * (7 - i)) w)) [0..<8])"

definition padding :: "nat \<Rightarrow> byte list" where
  "padding n = 0x80 # replicate ((119 - n mod 64) mod 64) 0 @ len_bytes (8 * n)"

fun blocks64 :: "byte list \<Rightarrow> byte list list" where
  "blocks64 bs = (if length bs < 64 then [] else take 64 bs # blocks64 (drop 64 bs))"

declare blocks64.simps [simp del]

definition sha256 :: "byte list \<Rightarrow> byte list" where
  "sha256 msg =
     concat (map be_bytes (foldl compress sha_h0 (blocks64 (msg @ padding (length msg)))))"

definition hex_alphabet :: string where
  "hex_alphabet = ''0123456789abcdef''"

definition hex_digit :: "nat \<Rightarrow> char" where
  "hex_digit n = hex_alphabet ! n"

definition hex_of :: "byte list \<Rightarrow> string" where
  "hex_of bs = concat (map (\<lambda>b. [hex_digit (unat b div 16), hex_digit (unat b mod 16)]) bs)"

text \<open>The hash object: \<open>hashlib.sha256()\<close>, \<open>update\<close> and \<open>hexdigest\<close>.\<close>

record sha_ctx =
  ctx_h :: "w32 list"
  ctx_buf :: "byte list"
  ctx_len :: nat

definition sha256_new :: sha_ctx where
  "sha256_new = \<lparr>ctx_h = sha_h0, ctx_buf = [], ctx_len = 0\<rparr>"

fun absorb :: "w32 list \<Rightarrow> byte list \<Rightarrow> w32 list \<times> byte list" where
  "absorb hv bs =
     (if length bs < 64 then (hv, bs) else absorb (compress hv (take 64 bs)) (drop 64 bs))"

declare absorb.simps [simp del]

definition update :: "sha_ctx \<Rightarrow> byte list \<Rightarrow> sha_ctx" where
  "update c d =
     (case absorb (ctx_h c) (ctx_buf c @ d) of
        (hv, rest) \<Rightarrow> \<lparr>ctx_h = hv, ctx_buf = rest, ctx_len = ctx_len c + length d\<rparr>)"

definition digest :: "sha_ctx \<Rightarrow> byte list" where
  "digest c =
     concat (map be_bytes (fst (absorb (ctx_h c) (ctx_buf c @ padding (ctx_len c)))))"

definition hexdigest :: "sha_ctx \<Rightarrow> string" where
  "hexdigest c = hex_of (digest c)"

section \<open>\<open>compute_file_hash\<close>\<close>

text \<open>
  \<^verbatim>\<open>for byte_block in iter(lambda: f.read(4096), b""): sha256_hash.update(byte_block)\<close>
  The first argument is what is left of the file behind the read position: \<open>f.read(4096)\<close>
  returns its first 4096 bytes (fewer at the end of the file) and moves the position
  behind them; the loop ends when the block read is empty.
\<close>

function read_blocks :: "byte list \<Rightarrow> sha_ctx \<Rightarrow> sha_ctx" where
  "read_blocks rest c =
     (let byte_block = take 4096 rest in
      if byte_block = [] then c else read_blocks (drop 4096 rest) (update c byte_block))"
  by pat_completeness auto
termination
  by (relation "measure (\<lambda>(rest, c). length rest)") auto

declare read_blocks.simps [simp del]

text \<open>The body of \<open>compute_file_hash\<close> on the contents of the opened file.\<close>

definition hash_of_contents :: "byte list \<Rightarrow> string" where
  "hash_of_contents contents = hexdigest (read_blocks contents sha256_new)"

text \<open>The state of a hash object that has absorbed exactly the bytes \<open>d\<close>.\<close>

definition ctx_of :: "byte list \<Rightarrow> sha_ctx" where
  "ctx_of d = \<lparr>ctx_h = fst (absorb sha_h0 d), ctx_buf = snd (absorb sha_h0 d),
              ctx_len = length d\<rparr>"

text \<open>
  The blocks that the loop passes to \<open>update\<close>, in order: every one is non-empty and at
  most 4096 bytes long, and together they are the file.
\<close>

function file_blocks :: "byte list \<Rightarrow> byte list list" where
  "file_blocks rest =
     (let byte_block = take 4096 rest in
      if byte_block = [] then [] else byte_block # file_blocks (drop 4096 rest))"
  by pat_completeness auto
termination
  by (relation "measure length") auto

declare file_blocks.simps [simp del]

section \<open>Python values, dictionaries and exceptions\<close>

datatype pyval = PNone | PStr string | PInt int

text \<open>
  A \<open>dict\<close> with string keys is an association list in insertion order; \<open>d[k]\<close> raises
  \<open>KeyError\<close> on a missing key, \<open>d.get(k)\<close> gives \<open>None\<close>.
\<close>

datatype py_error =
    KeyError string
  | ValueError string
  | OSError string
  | TypeError string
  | IndexError string
  | BoxAPIError string
  | Exception string

definition quoted :: "string \<Rightarrow> string" where
  "quoted s = [CHR 0x27] @ s @ [CHR 0x27]"

text \<open>\<open>str(e)\<close>.\<close>

fun str_error :: "py_error \<Rightarrow> string" where
  "str_error (KeyError k) = quoted k"
| "str_error (ValueError m) = m"
| "str_error (OSError m) = m"
| "str_error (TypeError m) = m"
| "str_error (IndexError m) = m"
| "str_error (BoxAPIError m) = m"
| "str_error (Exception m) = m"

definition dict_item :: "(string \<times> 'v) list \<Rightarrow> string \<Rightarrow> py_error + 'v" where
  "dict_item d k = (case map_of d k of None \<Rightarrow> Inl (KeyError k) | Some v \<Rightarrow> Inr v)"

definition dict_get :: "(string \<times> pyval) list \<Rightarrow> string \<Rightarrow> pyval" where
  "dict_get d k = (case map_of d k of None \<Rightarrow> PNone | Some v \<Rightarrow> v)"

text \<open>\<open>str(v)\<close>, as an f-string renders a value.\<close>

fun str_pyval :: "pyval \<Rightarrow> string" where
  "str_pyval PNone = ''None''"
| "str_pyval (PStr s) = s"
| "str_pyval (PInt i) = (if i < 0 then ''-'' @ str_nat (nat (- i)) else str_nat (nat i))"

section \<open>The deployment end date\<close>

text \<open>
  \<open>datetime.strptime(s, "%Y-%m-%d")\<close> accepts a year of four digits, a month written
  \<open>1[0-2]|0[1-9]|[1-9]\<close> and a day written \<open>3[01]|[12]\d|0[1-9]|[1-9]| [1-9]\<close>,
  separated by dashes and with nothing left over, and then builds the date, which must
  exist. Everything else raises \<open>ValueError\<close>.
\<close>

definition is_digit :: "char \<Rightarrow> bool" where
  "is_digit c \<longleftrightarrow> 48 \<le> (of_char c :: nat) \<and> (of_char c :: nat) \<le> 57"

definition int_of_digits :: "string \<Rightarrow> nat" where
  "int_of_digits s = foldl (\<lambda>a c. 10 * a + ((of_char c :: nat) - 48)) 0 s"

fun split :: "char \<Rightarrow> string \<Rightarrow> string list" where
  "split c [] = [[]]"
| "split c (x # xs) =
     (if x = c then [] # split c xs
      else (case split c xs of [] \<Rightarrow> [[x]] | p # ps \<Rightarrow> (x # p) # ps))"

definition is_leap :: "nat \<Rightarrow> bool" where
  "is_leap y \<longleftrightarrow> y mod 4 = 0 \<and> (y mod 100 \<noteq> 0 \<or> y mod 400 = 0)"

definition days_in_month :: "nat \<Rightarrow> nat \<Rightarrow> nat" where
  "days_in_month y m =
     (if m = 2 then (if is_leap y then 29 else 28)
      else if m = 4 \<or> m = 6 \<or> m = 9 \<or> m = 11 then 30 else 31)"

definition month_field :: "string \<Rightarrow> bool" where
  "month_field ms \<longleftrightarrow>
     (length ms = 1 \<or> length ms = 2) \<and> list_all is_digit ms
     \<and> 1 \<le> int_of_digits ms \<and> int_of_digits ms \<le> 12"

definition day_field :: "string \<Rightarrow> bool" where
  "day_field ds \<longleftrightarrow>
     ((length ds = 1 \<or> length ds = 2) \<and> list_all is_digit ds
        \<and> 1 \<le> int_of_digits ds \<and> int_of_digits ds \<le> 31)
     \<or> (length ds = 2 \<and> hd ds = CHR '' '' \<and> is_digit (last ds) \<and> last ds \<noteq> CHR ''0'')"

definition day_value :: "string \<Rightarrow> nat" where
  "day_value ds = int_of_digits (filter is_digit ds)"

definition strptime_ymd :: "string \<Rightarrow> py_error + (nat \<times> nat \<times> nat)" where
  "strptime_ymd s =
     (case split (CHR ''-'') s of
        [ys, ms, ds] \<Rightarrow>
          if length ys = 4 \<and> list_all is_digit ys \<and> month_field ms \<and> day_field ds
          then (let y = int_of_digits ys; m = int_of_digits ms; d = day_value ds in
                if y < 1 then Inl (ValueError ''year 0 is out of range'')
                else if days_in_month y m < d
                then Inl (ValueError ''day is out of range for month'')
                else Inr (y, m, d))
          else Inl (ValueError (''time data '' @ quoted s @ '' does not match format''))
      | _ \<Rightarrow> Inl (ValueError (''time data '' @ quoted s @ '' does not match format'')))"

text \<open>\<open>s.zfill(w)\<close> on a string of digits, and \<open>deploy_date.strftime("%Y%m")\<close>.\<close>

definition zfill :: "nat \<Rightarrow> string \<Rightarrow> string" where
  "zfill w s = replicate (w - length s) (CHR ''0'') @ s"

definition strftime_Ym :: "nat \<times> nat \<times> nat \<Rightarrow> string" where
  "strftime_Ym date = (case date of (y, m, d) \<Rightarrow> zfill 4 (str_nat y) @ zfill 2 (str_nat m))"

section \<open>Files: the SD card and the staging disk\<close>

text \<open>
  What the program reads of a file: its bytes, its modification time as
  \<open>datetime.fromtimestamp(st_mtime).isoformat()\<close> renders it, and what the image library
  returns for it (the tag dictionary, or the message of the exception it raises).
\<close>

record file_data =
  fd_bytes :: "byte list"
  fd_mtime :: string
  fd_exif :: "string + (string \<times> pyval) list"

record sd_file =
  sd_name :: string
  sd_readable :: bool
  sd_data :: file_data

datatype sd_dir = SdDir (sd_files: "sd_file list") (sd_subdirs: "(string \<times> sd_dir) list")

datatype jval = JNull | JStr string | JInt int | JList "jval list" | JObj "(string \<times> jval) list"

datatype disk_file = DataFile file_data | CsvFile "string list list" | JsonFile jval

text \<open>
  \<open>os.walk(source_dir)\<close>, top down: the directory itself with its files, then each
  subdirectory in turn.
\<close>

fun os_walk :: "string \<Rightarrow> sd_dir \<Rightarrow> (string \<times> sd_file list) list" where
  "os_walk root (SdDir fs subs) =
     (root, fs) # concat (map (\<lambda>(name, d). os_walk (path_join root name) d) subs)"

text \<open>The two nested \<open>for\<close> loops visit these (root, file) pairs, in this order.\<close>

definition walk_files :: "string \<Rightarrow> sd_dir \<Rightarrow> (string \<times> sd_file) list" where
  "walk_files root tree = concat (map (\<lambda>(r, fs). map (\<lambda>f. (r, f)) fs) (os_walk root tree))"

text \<open>
  \<open>shutil.copy2\<close> copies contents and modification time, replacing a file already at the
  destination; it raises when the source cannot be read.
\<close>

definition copy2 ::
  "string \<Rightarrow> sd_file \<Rightarrow> string \<Rightarrow> (string \<rightharpoonup> disk_file) \<Rightarrow> py_error + (string \<rightharpoonup> disk_file)" where
  "copy2 source_path f dest_path disk =
     (if sd_readable f then Inr (disk(dest_path \<mapsto> DataFile (sd_data f)))
      else Inl (OSError (''[Errno 13] Permission denied: '' @ quoted source_path)))"

definition read_file :: "(string \<rightharpoonup> disk_file) \<Rightarrow> string \<Rightarrow> py_error + file_data" where
  "read_file disk path =
     (case disk path of
        Some (DataFile d) \<Rightarrow> Inr d
      | _ \<Rightarrow> Inl (OSError (''[Errno 2] No such file or directory: '' @ quoted path)))"

definition extract_exif_data ::
  "bool \<Rightarrow> (string \<rightharpoonup> disk_file) \<Rightarrow> string \<Rightarrow> (string \<times> pyval) list" where
  "extract_exif_data EXIF_AVAILABLE disk image_path =
     (if \<not> EXIF_AVAILABLE then []
      else (case read_file disk image_path of
              Inl e \<Rightarrow> [(''error'', PStr (str_error e))]
            | Inr d \<Rightarrow> (case fd_exif d of
                          Inl msg \<Rightarrow> [(''error'', PStr msg)]
                        | Inr exif_data \<Rightarrow> exif_data)))"

definition compute_file_hash :: "(string \<rightharpoonup> disk_file) \<Rightarrow> string \<Rightarrow> py_error + string" where
  "compute_file_hash disk filepath =
     (case read_file disk filepath of
        Inl e \<Rightarrow> Inl e
      | Inr d \<Rightarrow> Inr (hash_of_contents (fd_bytes d)))"

section \<open>The wizard's state\<close>

datatype dialog =
    Information string string
  | Warning string string
  | Critical string string
  | Question string string

text \<open>One row of the device tree: its four text columns.\<close>

record tree_item =
  item_plot :: string
  item_type :: string
  item_status :: string
  item_count :: string

text \<open>
  The two side effects of the copy loop, in the order in which they happen: a file copied
  (source path, destination path) and a record appended to the inventory (its
  \<open>new_filename\<close>).
\<close>

datatype effect = Copied string string | Recorded string

text \<open>
  The fields of \<open>FieldDataWizard\<close> that the operations below read or write, the staging
  disk, and what the user has been shown: the log (without the clock prefix that \<open>log\<close>
  puts before each message) and the message boxes, oldest first.
\<close>

record wizard =
  metadata :: "(string \<times> string) list"
  devices :: "(nat \<times> pyval \<times> string \<times> string) list"
  file_inventory :: "(string \<times> pyval) list list"
  staging_root :: string
  current_deployment_folder :: "string option"
  disk :: "string \<rightharpoonup> disk_file"
  device_tree :: "tree_item list"
  log_text :: "string list"
  dialogs :: "dialog list"
  current_tab :: nat
  effects :: "effect list"

definition log :: "string \<Rightarrow> wizard \<Rightarrow> wizard" where
  "log message w = w\<lparr>log_text := log_text w @ [message]\<rparr>"

definition show_dialog :: "dialog \<Rightarrow> wizard \<Rightarrow> wizard" where
  "show_dialog d w = w\<lparr>dialogs := dialogs w @ [d]\<rparr>"

definition DEVICE_TYPES :: "(string \<times> string) list" where
  "DEVICE_TYPES = [(''ML'', ''Medium-Large Animal Camera''), (''SA'', ''Small Animal Camera''),
                   (''BD'', ''Acoustic Recorder Birds''), (''BT'', ''Acoustic Recorder Bats'')]"

definition VERSION :: string where
  "VERSION = ''2.1''"

section \<open>\<open>process_sd_card_files\<close>\<close>

text \<open>The values that stay fixed during one run of the copy loop.\<close>

record job =
  j_exif_available :: bool
  j_org :: string
  j_site :: string
  j_date_str :: string
  j_dest_dir :: string
  j_plot_num :: nat
  j_plot_label :: pyval
  j_dev_code :: string
  j_device_label :: string

definition new_filename_of :: "job \<Rightarrow> nat \<Rightarrow> string \<Rightarrow> string" where
  "new_filename_of j file_sequence filename =
     j_org j @ ''_'' @ j_site j @ ''_plot'' @ str_nat (j_plot_num j) @ ''_'' @ j_dev_code j
       @ ''_'' @ j_date_str j @ ''_'' @ fmt_05d file_sequence @ lower (suffix filename)"

definition file_info_of ::
  "job \<Rightarrow> string \<Rightarrow> string \<Rightarrow> string \<Rightarrow> file_data \<Rightarrow> string \<Rightarrow> (string \<times> pyval) list
     \<Rightarrow> (string \<times> pyval) list" where
  "file_info_of j filename new_filename source_path st file_hash exif_data =
     [(''original_filename'', PStr filename),
      (''new_filename'', PStr new_filename),
      (''plot_number'', PInt (int (j_plot_num j))),
      (''plot_label'', j_plot_label j),
      (''device_type'', PStr (j_dev_code j)),
      (''device_label'', PStr (j_device_label j)),
      (''file_type'', PStr (classify_file filename)),
      (''file_size_bytes'', PInt (int (length (fd_bytes st)))),
      (''file_hash_sha256'', PStr file_hash),
      (''source_path'', PStr source_path),
      (''timestamp'', PStr (fd_mtime st)),
      (''exif_datetime'', dict_get exif_data ''DateTime''),
      (''exif_make'', dict_get exif_data ''Make''),
      (''exif_model'', dict_get exif_data ''Model'')]"

text \<open>
  One pass through the body of the inner \<open>for\<close> loop, for the file \<open>f\<close> found in
  directory \<open>root\<close>. The result is the state reached together with either the exception
  that left the loop or the new values of \<open>files_copied\<close> and \<open>file_sequence\<close>.
\<close>

definition process_file ::
  "job \<Rightarrow> string \<times> sd_file \<Rightarrow> wizard \<Rightarrow> nat \<Rightarrow> nat \<Rightarrow> wizard \<times> (py_error + nat \<times> nat)" where
  "process_file j entry w files_copied file_sequence =
     (let root = fst entry; f = snd entry; filename = sd_name f in
      if startswith filename ''.'' \<or> startswith filename ''_''
      then (w, Inr (files_copied, file_sequence))
      else
        let source_path = path_join root filename in
        if classify_file filename = ''other''
        then (w, Inr (files_copied, file_sequence))
        else
          let new_filename = new_filename_of j file_sequence filename;
              dest_path = path_join (j_dest_dir j) new_filename
          in case copy2 source_path f dest_path (disk w) of
               Inl e \<Rightarrow> (w, Inl e)
             | Inr disk' \<Rightarrow>
                 let w1 = w\<lparr>disk := disk', effects := effects w @ [Copied source_path dest_path]\<rparr>;
                     exif_data =
                       (if classify_file filename = ''image'' \<and> j_exif_available j
                        then extract_exif_data (j_exif_available j) (disk w1) dest_path
                        else [])
                 in case compute_file_hash (disk w1) dest_path of
                      Inl e \<Rightarrow> (w1, Inl e)
                    | Inr file_hash \<Rightarrow>
                        (case read_file (disk w1) dest_path of
                           Inl e \<Rightarrow> (w1, Inl e)
                         | Inr st \<Rightarrow>
                             let file_info =
                                   file_info_of j filename new_filename source_path st file_hash
                                     exif_data;
                                 w2 = w1\<lparr>file_inventory := file_inventory w1 @ [file_info],
                                          effects := effects w1 @ [Recorded new_filename]\<rparr>;
                                 files_copied' = files_copied + 1;
                                 file_sequence' = file_sequence + 1;
                                 w3 = (if files_copied' mod 50 = 0
                                       then log (''  ...'' @ str_nat files_copied'
                                                 @ '' files processed'') w2
                                       else w2)
                             in (w3, Inr (files_copied', file_sequence'))))"

fun process_files ::
  "job \<Rightarrow> (string \<times> sd_file) list \<Rightarrow> wizard \<Rightarrow> nat \<Rightarrow> nat \<Rightarrow> wizard \<times> (py_error + nat)" where
  "process_files j [] w files_copied file_sequence = (w, Inr files_copied)"
| "process_files j (entry # rest) w files_copied file_sequence =
     (case process_file j entry w files_copied file_sequence of
        (w', Inl e) \<Rightarrow> (w', Inl e)
      | (w', Inr (files_copied', file_sequence')) \<Rightarrow>
          process_files j rest w' files_copied' file_sequence')"

text \<open>
  \<open>process_sd_card_files\<close>. Before the loop, the date and the names are read from
  \<open>self.metadata\<close>: a missing key or a malformed date raises before any file is touched.
\<close>

definition read_job ::
  "bool \<Rightarrow> wizard \<Rightarrow> string \<Rightarrow> nat \<Rightarrow> pyval \<Rightarrow> string \<Rightarrow> string \<Rightarrow> py_error + job" where
  "read_job EXIF_AVAILABLE w dest_dir plot_num plot_label dev_code device_label =
     (case dict_item (metadata w) ''deployment_end'' of
        Inl e \<Rightarrow> Inl e
      | Inr deployment_end \<Rightarrow>
     (case strptime_ymd deployment_end of
        Inl e \<Rightarrow> Inl e
      | Inr deploy_date \<Rightarrow>
     (case dict_item (metadata w) ''organization'' of
        Inl e \<Rightarrow> Inl e
      | Inr org \<Rightarrow>
     (case dict_item (metadata w) ''site'' of
        Inl e \<Rightarrow> Inl e
      | Inr site \<Rightarrow>
          Inr \<lparr>j_exif_available = EXIF_AVAILABLE, j_org = org, j_site = site,
               j_date_str = strftime_Ym deploy_date, j_dest_dir = dest_dir,
               j_plot_num = plot_num, j_plot_label = plot_label, j_dev_code = dev_code,
               j_device_label = device_label\<rparr>))))"

text \<open>Then the counters start at 0 and 1 and the loop runs over the walk of the source.\<close>

definition process_sd_card_files ::
  "bool \<Rightarrow> wizard \<Rightarrow> string \<Rightarrow> sd_dir \<Rightarrow> string \<Rightarrow> nat \<Rightarrow> pyval \<Rightarrow> string \<Rightarrow> string
     \<Rightarrow> wizard \<times> (py_error + nat)" where
  "process_sd_card_files EXIF_AVAILABLE w source_dir source_tree dest_dir plot_num plot_label
       dev_code device_label =
     (case read_job EXIF_AVAILABLE w dest_dir plot_num plot_label dev_code device_label of
        Inl e \<Rightarrow> (w, Inl e)
      | Inr j \<Rightarrow> process_files j (walk_files source_dir source_tree) w 0 1)"

section \<open>What one run of the copy loop does, file by file\<close>

text \<open>A file that the loop passes over: one of the two \<open>continue\<close> statements applies.\<close>

definition skipped :: "string \<Rightarrow> bool" where
  "skipped filename \<longleftrightarrow>
     startswith filename ''.'' \<or> startswith filename ''_'' \<or> classify_file filename = ''other''"

text \<open>The EXIF dictionary and the inventory record of a file copied under sequence number \<open>k\<close>.\<close>

definition exif_of :: "job \<Rightarrow> sd_file \<Rightarrow> (string \<times> pyval) list" where
  "exif_of j f =
     (if classify_file (sd_name f) = ''image'' \<and> j_exif_available j
      then (case fd_exif (sd_data f) of Inl msg \<Rightarrow> [(''error'', PStr msg)] | Inr d \<Rightarrow> d)
      else [])"

definition record_of :: "job \<Rightarrow> nat \<times> string \<times> sd_file \<Rightarrow> (string \<times> pyval) list" where
  "record_of j p =
     (case p of (k, root, f) \<Rightarrow>
        file_info_of j (sd_name f) (new_filename_of j k (sd_name f)) (path_join root (sd_name f))
          (sd_data f) (hash_of_contents (fd_bytes (sd_data f))) (exif_of j f))"

definition dest_path_of :: "job \<Rightarrow> nat \<times> string \<times> sd_file \<Rightarrow> string" where
  "dest_path_of j p =
     (case p of (k, root, f) \<Rightarrow> path_join (j_dest_dir j) (new_filename_of j k (sd_name f)))"

definition effects_of :: "job \<Rightarrow> nat \<times> string \<times> sd_file \<Rightarrow> effect list" where
  "effects_of j p =
     (case p of (k, root, f) \<Rightarrow>
        [Copied (path_join root (sd_name f)) (dest_path_of j p),
         Recorded (new_filename_of j k (sd_name f))])"

text \<open>
  The files that a run copies: those not passed over, up to the first one of them that
  cannot be read; and the exception that this one raises, if there is one.
\<close>

fun copied :: "(string \<times> sd_file) list \<Rightarrow> (string \<times> sd_file) list" where
  "copied [] = []"
| "copied (e # es) =
     (if skipped (sd_name (snd e)) then copied es
      else if sd_readable (snd e) then e # copied es
      else [])"

fun failure :: "(string \<times> sd_file) list \<Rightarrow> py_error option" where
  "failure [] = None"
| "failure (e # es) =
     (if skipped (sd_name (snd e)) then failure es
      else if sd_readable (snd e) then failure es
      else Some (OSError (''[Errno 13] Permission denied: ''
                          @ quoted (path_join (fst e) (sd_name (snd e))))))"

text \<open>The progress lines: one after every fiftieth file of the run.\<close>

definition progress_lines :: "nat \<Rightarrow> nat \<Rightarrow> string list" where
  "progress_lines files_copied n =
     map (\<lambda>c. ''  ...'' @ str_nat c @ '' files processed'')
       (filter (\<lambda>c. c mod 50 = 0) [Suc files_copied ..< Suc (files_copied + n)])"

text \<open>Writing the copied files to the disk, in order.\<close>

definition write_all ::
  "job \<Rightarrow> (nat \<times> string \<times> sd_file) list \<Rightarrow> (string \<rightharpoonup> disk_file) \<Rightarrow> (string \<rightharpoonup> disk_file)" where
  "write_all j ps d = foldl (\<lambda>d p. d(dest_path_of j p \<mapsto> DataFile (sd_data (snd (snd p))))) d ps"

text \<open>
  The state in which a run of the loop over the entries \<open>xs\<close> ends, started in state \<open>w\<close>
  with the counters at \<open>c\<close> and \<open>s\<close>.
\<close>

definition run_state :: "job \<Rightarrow> (string \<times> sd_file) list \<Rightarrow> wizard \<Rightarrow> nat \<Rightarrow> nat \<Rightarrow> wizard" where
  "run_state j xs w c s =
     w\<lparr>file_inventory := file_inventory w @ map (record_of j) (enumerate s (copied xs)),
       disk := write_all j (enumerate s (copied xs)) (disk w),
       log_text := log_text w @ progress_lines c (length (copied xs)),
       effects := effects w @ concat (map (effects_of j) (enumerate s (copied xs)))\<rparr>"

text \<open>
  A check of the order of effects: every record appended comes after the copy to the
  destination path that it names.
\<close>

fun recorded_after_copy :: "string \<Rightarrow> string list \<Rightarrow> effect list \<Rightarrow> bool" where
  "recorded_after_copy dest_dir seen [] = True"
| "recorded_after_copy dest_dir seen (Copied src dst # es) =
     recorded_after_copy dest_dir (dst # seen) es"
| "recorded_after_copy dest_dir seen (Recorded n # es) =
     (path_join dest_dir n \<in> set seen \<and> recorded_after_copy dest_dir seen es)"

(*DEFS-END*)

section \<open>Properties of the hash computation\<close>

lemma absorb_append:
  "absorb hv (a @ b) = absorb (fst (absorb hv a)) (snd (absorb hv a) @ b)"
proof (induction hv a rule: absorb.induct)
  case (1 hv bs)
  show ?case
  proof (cases "length bs < 64")
    case True
    then show ?thesis by (simp add: absorb.simps [of hv bs])
  next
    case False
    then have "absorb hv (bs @ b) = absorb (compress hv (take 64 bs)) (drop 64 bs @ b)"
      by (simp add: absorb.simps [of hv "bs @ b"])
    also have "\<dots> = absorb (fst (absorb (compress hv (take 64 bs)) (drop 64 bs)))
                         (snd (absorb (compress hv (take 64 bs)) (drop 64 bs)) @ b)"
      using "1.IH" [OF False] .
    also have "absorb (compress hv (take 64 bs)) (drop 64 bs) = absorb hv bs"
      using False by (simp add: absorb.simps [of hv bs])
    finally show ?thesis .
  qed
qed

lemma fst_absorb: "fst (absorb hv bs) = foldl compress hv (blocks64 bs)"
proof (induction hv bs rule: absorb.induct)
  case (1 hv bs)
  show ?case
  proof (cases "length bs < 64")
    case True
    then show ?thesis by (simp add: absorb.simps [of hv bs] blocks64.simps [of bs])
  next
    case False
    then show ?thesis
      using "1.IH" [OF False] by (simp add: absorb.simps [of hv bs] blocks64.simps [of bs])
  qed
qed

lemma ctx_of_Nil: "sha256_new = ctx_of []"
  by (simp add: sha256_new_def ctx_of_def absorb.simps [of sha_h0 "[]"])

lemma update_ctx_of: "update (ctx_of d) x = ctx_of (d @ x)"
  by (simp add: update_def ctx_of_def absorb_append [of sha_h0 d x] split: prod.split)

lemma digest_ctx_of: "digest (ctx_of d) = sha256 d"
  by (simp add: digest_def ctx_of_def sha256_def fst_absorb [symmetric]
      absorb_append [of sha_h0 d "padding (length d)"])

lemma read_blocks_ctx_of: "read_blocks rest (ctx_of d) = ctx_of (d @ rest)"
proof (induction rest "ctx_of d" arbitrary: d rule: read_blocks.induct)
  case (1 rest)
  show ?case
  proof (cases "take 4096 rest = []")
    case True
    then have "rest = []" by (cases rest) auto
    then show ?thesis by (simp add: read_blocks.simps [of "[]"])
  next
    case False
    have "read_blocks rest (ctx_of d) = read_blocks (drop 4096 rest) (ctx_of (d @ take 4096 rest))"
      using False by (simp add: read_blocks.simps [of rest] update_ctx_of)
    also have "\<dots> = ctx_of ((d @ take 4096 rest) @ drop 4096 rest)"
      using "1.hyps" [OF refl False, of "d @ take 4096 rest"] by (simp add: update_ctx_of)
    finally show ?thesis by simp
  qed
qed

lemma read_blocks_foldl: "read_blocks rest c = foldl update c (file_blocks rest)"
proof (induction rest c rule: read_blocks.induct)
  case (1 rest c)
  show ?case
  proof (cases "take 4096 rest = []")
    case True
    then have "rest = []" by (cases rest) auto
    then show ?thesis by (simp add: read_blocks.simps [of "[]"] file_blocks.simps [of "[]"])
  next
    case False
    then show ?thesis
      using "1.IH" [OF refl False]
      by (simp add: read_blocks.simps [of rest] file_blocks.simps [of rest])
  qed
qed

lemma concat_file_blocks: "concat (file_blocks rest) = rest"
proof (induction rest rule: file_blocks.induct)
  case (1 rest)
  show ?case
  proof (cases "take 4096 rest = []")
    case True
    then have "rest = []" by (cases rest) auto
    then show ?thesis by (simp add: file_blocks.simps [of "[]"])
  next
    case False
    then show ?thesis
      using "1.IH" [OF refl False] by (simp add: file_blocks.simps [of rest])
  qed
qed

lemma file_blocks_sizes:
  "b \<in> set (file_blocks rest) \<Longrightarrow> 0 < length b \<and> length b \<le> 4096"
proof (induction rest rule: file_blocks.induct)
  case (1 rest)
  show ?case
  proof (cases "take 4096 rest = []")
    case True
    with "1.prems" show ?thesis by (simp add: file_blocks.simps [of rest])
  next
    case False
    with "1.prems" have "b = take 4096 rest \<or> b \<in> set (file_blocks (drop 4096 rest))"
      by (simp add: file_blocks.simps [of rest])
    then show ?thesis
      using False "1.IH" [OF refl False] by auto
  qed
qed

lemma hex_digit_lower: "n < 16 \<Longrightarrow> hex_digit n \<in> set hex_alphabet"
  unfolding hex_digit_def by (rule nth_mem) (simp add: hex_alphabet_def)

lemma hex_digit_byte:
  fixes b :: byte
  shows "hex_digit (unat b div 16) \<in> set hex_alphabet"
    and "hex_digit (unat b mod 16) \<in> set hex_alphabet"
proof -
  have "unat b < 256"
    using unsigned_less [of b, where 'a = nat] by simp
  then have "unat b div 16 < 16" by simp
  then show "hex_digit (unat b div 16) \<in> set hex_alphabet"
    by (rule hex_digit_lower)
  show "hex_digit (unat b mod 16) \<in> set hex_alphabet"
    by (rule hex_digit_lower) simp
qed

lemma hex_of_chars: "set (hex_of bs) \<subseteq> set hex_alphabet"
proof (induction bs)
  case Nil
  show ?case by (simp add: hex_of_def)
next
  case (Cons b bs)
  have "hex_of (b # bs) = [hex_digit (unat b div 16), hex_digit (unat b mod 16)] @ hex_of bs"
    by (simp add: hex_of_def)
  then show ?case
    using Cons.IH hex_digit_byte [of b] by simp
qed

lemma length_hex_of: "length (hex_of bs) = 2 * length bs"
  by (induction bs) (simp_all add: hex_of_def)

text \<open>
  Claim C7. For every file contents, of any size including zero, \<open>compute_file_hash\<close>
  returns the hexadecimal rendering, in the digits 0-9 and a-f, of the SHA-256 digest of
  the whole contents: feeding the hash object the successive blocks of at most 4096 bytes
  that the loop reads gives the same digest as hashing the concatenation of those blocks,
  which is the file.
\<close>

theorem compute_file_hash_is_sha256:
  "hash_of_contents contents = hex_of (sha256 contents)
   \<and> hexdigest (foldl update sha256_new (file_blocks contents))
       = hex_of (sha256 (concat (file_blocks contents)))
   \<and> concat (file_blocks contents) = contents
   \<and> set (hash_of_contents contents) \<subseteq> set ''0123456789abcdef''"
proof -
  have a: "read_blocks contents sha256_new = ctx_of contents"
    using read_blocks_ctx_of [of contents "[]"] by (simp add: ctx_of_Nil)
  have b: "hash_of_contents contents = hex_of (sha256 contents)"
    by (simp add: hash_of_contents_def hexdigest_def a digest_ctx_of)
  have c: "hexdigest (foldl update sha256_new (file_blocks contents))
             = hex_of (sha256 (concat (file_blocks contents)))"
    using b by (simp add: hash_of_contents_def read_blocks_foldl concat_file_blocks)
  have d: "set (hash_of_contents contents) \<subseteq> set ''0123456789abcdef''"
    unfolding b using hex_of_chars [of "sha256 contents"] by (simp only: hex_alphabet_def)
  from b c d show ?thesis by (simp add: concat_file_blocks)
qed

section \<open>Properties of the copy loop\<close>

lemma process_file_skipped:
  "skipped (sd_name (snd e)) \<Longrightarrow> process_file j e w c s = (w, Inr (c, s))"
  by (auto simp: process_file_def skipped_def Let_def)

lemma process_file_unreadable:
  "\<not> skipped (sd_name (snd e)) \<Longrightarrow> \<not> sd_readable (snd e) \<Longrightarrow>
   process_file j e w c s
     = (w, Inl (OSError (''[Errno 13] Permission denied: ''
                         @ quoted (path_join (fst e) (sd_name (snd e))))))"
  by (simp add: process_file_def skipped_def Let_def copy2_def)

lemma process_file_copied:
  "\<not> skipped (sd_name (snd e)) \<Longrightarrow> sd_readable (snd e) \<Longrightarrow>
   process_file j e w c s
     = ((if Suc c mod 50 = 0 then log (''  ...'' @ str_nat (Suc c) @ '' files processed'') else id)
          (w\<lparr>file_inventory := file_inventory w @ [record_of j (s, e)],
             disk := (disk w)(dest_path_of j (s, e) \<mapsto> DataFile (sd_data (snd e))),
             effects := effects w @ effects_of j (s, e)\<rparr>),
        Inr (Suc c, Suc s))"
  by (cases e)
     (simp add: process_file_def skipped_def Let_def copy2_def compute_file_hash_def
       read_file_def extract_exif_data_def exif_of_def record_of_def dest_path_of_def
       effects_of_def log_def)

lemma progress_lines_0: "progress_lines c 0 = []"
  by (simp add: progress_lines_def)

lemma progress_lines_Suc:
  "progress_lines c (Suc n)
     = (if Suc c mod 50 = 0 then [''  ...'' @ str_nat (Suc c) @ '' files processed''] else [])
       @ progress_lines (Suc c) n"
proof -
  have "[Suc c ..< Suc (c + Suc n)] = Suc c # [Suc (Suc c) ..< Suc (Suc c + n)]"
    by (simp add: upt_conv_Cons)
  then show ?thesis by (simp add: progress_lines_def)
qed

lemma write_all_Cons:
  "write_all j (p # ps) d
     = write_all j ps (d(dest_path_of j p \<mapsto> DataFile (sd_data (snd (snd p)))))"
  by (simp add: write_all_def)

lemma write_all_Nil: "write_all j [] d = d"
  by (simp add: write_all_def)

lemma process_files_run:
  "process_files j xs w c s
     = (run_state j xs w c s,
        case failure xs of None \<Rightarrow> Inr (c + length (copied xs)) | Some e \<Rightarrow> Inl e)"
proof (induction xs arbitrary: w c s)
  case Nil
  show ?case by (simp add: run_state_def progress_lines_0 write_all_Nil)
next
  case (Cons e es)
  show ?case
  proof (cases "skipped (sd_name (snd e))")
    case True
    then show ?thesis
      by (simp add: process_file_skipped Cons.IH run_state_def split: option.split)
  next
    case False
    show ?thesis
    proof (cases "sd_readable (snd e)")
      case unreadable: False
      with False show ?thesis
        by (simp add: process_file_unreadable run_state_def progress_lines_0 write_all_Nil)
    next
      case True
      with False show ?thesis
        by (simp add: process_file_copied Cons.IH run_state_def progress_lines_Suc
            write_all_Cons log_def split: option.split)
    qed
  qed
qed

end
